theory Spec2Isabelle
  imports Complex_Main "HOL-Library.Char_ord" "HOL-Library.List_Lexorder"
begin

section \<open>Data model: the loaded table\<close>

text \<open>
  \<^verbatim>\<open>analysis.py\<close> is one script over a pandas DataFrame \<^verbatim>\<open>df\<close> read from
  \<^verbatim>\<open>healthcare_data.csv\<close>, one row per encounter. A row is a record of its cells; a
  cell that is empty in the file is a missing value (NaN, NaT or None in pandas), written
  \<open>None\<close> here. Numeric cells are float64 or int64 in pandas; the model computes with
  exact rationals, so a number here is the value the float arithmetic approximates.
  Dates are the calendar dates that \<^verbatim>\<open>pd.to_datetime\<close> returns.
\<close>

datatype date = Date (year: int) (month: nat) (day: nat)

record encounter =
  patient_id :: "string option"
  admission_date :: "date option"
  discharge_date :: "date option"
  age :: "rat option"
  condition :: "string option"
  treatment_type :: "string option"
  insurance_type :: "string option"
  length_of_stay :: "rat option"
  total_cost :: "rat option"
  doctor_visits :: "rat option"
  treatment_success :: "string option"
  readmitted :: "string option"

type_synonym dataframe = "encounter list"

section \<open>Column operations of pandas used by the script\<close>

text \<open>The values of a column that are not missing, in row order.\<close>

fun dropna :: "'a option list \<Rightarrow> 'a list" where
  "dropna [] = []"
| "dropna (None # col) = dropna col"
| "dropna (Some v # col) = v # dropna col"

text \<open>\<^verbatim>\<open>Series.count()\<close>: the number of cells that are not missing.\<close>

definition count :: "'a option list \<Rightarrow> nat" where
  "count col = length (dropna col)"

text \<open>\<^verbatim>\<open>Series.sum()\<close> skips missing cells; the sum of no cells is 0.\<close>

definition sum_skipna :: "rat option list \<Rightarrow> rat" where
  "sum_skipna col = sum_list (dropna col)"

text \<open>
  \<^verbatim>\<open>Series.mean()\<close> and the \<^verbatim>\<open>'mean'\<close> aggregation skip missing cells and divide by
  the number of cells that are left; with no cell left the mean is NaN.
\<close>

definition mean :: "rat option list \<Rightarrow> rat option" where
  "mean col = (let vs = dropna col in
     if vs = [] then None else Some (sum_list vs / of_nat (length vs)))"

text \<open>
  \<^verbatim>\<open>Series.median()\<close> skips missing cells, sorts the rest and takes the middle value,
  or the mean of the two middle values when their number is even.
\<close>

definition median :: "rat option list \<Rightarrow> rat option" where
  "median col = (let vs = sort (dropna col); n = length vs in
     if n = 0 then None
     else if odd n then Some (vs ! (n div 2))
     else Some ((vs ! (n div 2 - 1) + vs ! (n div 2)) / 2))"

text \<open>
  The comparison \<^verbatim>\<open>column > scalar\<close>, cell by cell: a comparison with NaN on either
  side is False.
\<close>

definition gt :: "rat option \<Rightarrow> rat option \<Rightarrow> bool" where
  "gt a b = (case a of None \<Rightarrow> False
     | Some x \<Rightarrow> (case b of None \<Rightarrow> False | Some y \<Rightarrow> y < x))"

text \<open>\<^verbatim>\<open>df[mask]\<close>: the rows whose entry in the boolean mask is True, in row order.\<close>

fun select_mask :: "'a list \<Rightarrow> bool list \<Rightarrow> 'a list" where
  "select_mask (r # rs) (b # bs) = (if b then r # select_mask rs bs else select_mask rs bs)"
| "select_mask _ _ = []"

text \<open>
  Rounding to \<open>n\<close> decimal digits, ties to the even neighbour, as the builtin
  \<^verbatim>\<open>round(x, n)\<close>, the format \<^verbatim>\<open>:.nf\<close> and \<^verbatim>\<open>DataFrame.round(n)\<close> do.
\<close>

definition round_half_even :: "rat \<Rightarrow> int" where
  "round_half_even x = (let f = \<lfloor>x\<rfloor>; d = x - of_int f in
     if d < 1 / 2 then f
     else if 1 / 2 < d then f + 1
     else if even f then f else f + 1)"

definition round_dec :: "nat \<Rightarrow> rat \<Rightarrow> rat" where
  "round_dec n x = of_int (round_half_even (x * 10 ^ n)) / 10 ^ n"

definition round_cell :: "nat \<Rightarrow> rat option \<Rightarrow> rat option" where
  "round_cell n c = map_option (round_dec n) c"

section \<open>Step 2: data cleaning\<close>

text \<open>
  \<^verbatim>\<open>df['admission_month'] = df['admission_date'].dt.to_period('M')\<close>: a monthly period
  is an ordinal, the number of months since January 1970; periods compare by ordinal.
\<close>

type_synonym period = int

definition to_period_M :: "date \<Rightarrow> period" where
  "to_period_M d = (year d - 1970) * 12 + (int (month d) - 1)"

definition admission_month :: "encounter \<Rightarrow> period option" where
  "admission_month r = map_option to_period_M (admission_date r)"

text \<open>
  \<^verbatim>\<open>.map({'Yes': 1, 'No': 0})\<close>: a plain dict has no default, so a cell that is not a
  key of the dict, a missing cell included, becomes NaN.
\<close>

definition map_yes_no :: "string option \<Rightarrow> rat option" where
  "map_yes_no c = (if c = Some ''Yes'' then Some 1 else if c = Some ''No'' then Some 0 else None)"

definition success_binary :: "encounter \<Rightarrow> rat option" where
  "success_binary r = map_yes_no (treatment_success r)"

definition readmitted_binary :: "encounter \<Rightarrow> rat option" where
  "readmitted_binary r = map_yes_no (readmitted r)"

section \<open>Step 6: age groups\<close>

text \<open>
  \<^verbatim>\<open>pd.cut(df['age'], bins=[0, 35, 50, 65, 100], labels=[...])\<close> with the defaults
  \<^verbatim>\<open>right=True\<close>, \<^verbatim>\<open>include_lowest=False\<close>: the intervals are (0, 35], (35, 50],
  (50, 65] and (65, 100]; a value in none of them, or a missing value, has no category.
\<close>

datatype age_bucket = Young | Middle | Senior | Elderly

definition age_labels :: "age_bucket \<Rightarrow> string" where
  "age_labels b = (case b of Young \<Rightarrow> ''Young (18-35)'' | Middle \<Rightarrow> ''Middle (36-50)''
     | Senior \<Rightarrow> ''Senior (51-65)'' | Elderly \<Rightarrow> ''Elderly (66+)'')"

definition cut :: "rat option \<Rightarrow> age_bucket option" where
  "cut a = (case a of None \<Rightarrow> None
     | Some x \<Rightarrow>
         if 0 < x \<and> x \<le> 35 then Some Young
         else if 35 < x \<and> x \<le> 50 then Some Middle
         else if 50 < x \<and> x \<le> 65 then Some Senior
         else if 65 < x \<and> x \<le> 100 then Some Elderly
         else None)"

definition age_group :: "encounter \<Rightarrow> age_bucket option" where
  "age_group r = cut (age r)"

section \<open>Grouping\<close>

text \<open>
  \<^verbatim>\<open>df.groupby(key)\<close> with the defaults \<^verbatim>\<open>sort=True\<close>, \<^verbatim>\<open>dropna=True\<close>: one group
  for each distinct key that is not missing, the groups in ascending order of the key,
  each group holding the rows with that key in row order. Rows whose key is missing are
  in no group.
\<close>

definition groupby :: "('r \<Rightarrow> 'k::linorder option) \<Rightarrow> 'r list \<Rightarrow> ('k \<times> 'r list) list" where
  "groupby key df =
     map (\<lambda>k. (k, filter (\<lambda>r. key r = Some k) df)) (sort (remdups (dropna (map key df))))"

text \<open>
  \<^verbatim>\<open>age_group\<close> is a categorical column. Its groups come in the order of the
  categories; whether a category that no row has is a group of its own is the
  \<^verbatim>\<open>observed\<close> setting of \<^verbatim>\<open>groupby\<close>, which the script leaves at the default of the
  installed pandas (False before pandas 3, True since). The model takes it as a parameter.
\<close>

definition age_categories :: "age_bucket list" where
  "age_categories = [Young, Middle, Senior, Elderly]"

definition groupby_age :: "bool \<Rightarrow> dataframe \<Rightarrow> (age_bucket \<times> dataframe) list" where
  "groupby_age observed df =
     map (\<lambda>k. (k, filter (\<lambda>r. age_group r = Some k) df))
       (if observed then filter (\<lambda>k. Some k \<in> set (map age_group df)) age_categories
        else age_categories)"

section \<open>Step 3: key metrics\<close>

definition total_patients :: "dataframe \<Rightarrow> nat" where
  "total_patients df = length df"

definition avg_length_stay :: "dataframe \<Rightarrow> rat option" where
  "avg_length_stay df = mean (map length_of_stay df)"

definition avg_cost :: "dataframe \<Rightarrow> rat option" where
  "avg_cost df = mean (map total_cost df)"

text \<open>
  \<^verbatim>\<open>(column.sum() / total_patients) * 100\<close>. The sum is a NumPy scalar, and NumPy's
  division by the integer 0 raises nothing: it warns and returns nan for 0 / 0. The
  divisor is the number of rows of the table the column belongs to, so it is 0 only
  where the column is empty and its sum is 0.
\<close>

definition rate :: "rat option list \<Rightarrow> rat option" where
  "rate col = (let total = length col; s = sum_skipna col in
     if total = 0 then None else Some (s / of_nat total * 100))"

definition success_rate :: "dataframe \<Rightarrow> rat option" where
  "success_rate df = rate (map success_binary df)"

definition readmission_rate :: "dataframe \<Rightarrow> rat option" where
  "readmission_rate df = rate (map readmitted_binary df)"

section \<open>Steps 4 to 8: grouped tables\<close>

text \<open>\<^verbatim>\<open>(column * 100).round(1)\<close> on a column of a grouped table.\<close>

definition percent :: "rat option \<Rightarrow> rat option" where
  "percent c = round_cell 1 (map_option (\<lambda>x. x * 100) c)"

record condition_stats_row =
  cs_condition :: string
  cs_Patient_Count :: nat
  cs_Avg_Stay_Days :: "rat option"
  cs_Avg_Cost :: "rat option"
  cs_Success_Rate :: "rat option"
  cs_Readmission_Rate :: "rat option"

text \<open>
  \<^verbatim>\<open>.agg({...}).round(2)\<close> on one group: the count of the patient ids that are not
  missing, and the means, every mean rounded to two decimal digits (rounding leaves the
  integer count as it is).
\<close>

definition condition_agg :: "string \<times> dataframe \<Rightarrow> condition_stats_row" where
  "condition_agg kg = (case kg of (k, g) \<Rightarrow>
     \<lparr>cs_condition = k,
      cs_Patient_Count = count (map patient_id g),
      cs_Avg_Stay_Days = round_cell 2 (mean (map length_of_stay g)),
      cs_Avg_Cost = round_cell 2 (mean (map total_cost g)),
      cs_Success_Rate = round_cell 2 (mean (map success_binary g)),
      cs_Readmission_Rate = round_cell 2 (mean (map readmitted_binary g))\<rparr>)"

definition condition_stats :: "dataframe \<Rightarrow> condition_stats_row list" where
  "condition_stats df =
     map (\<lambda>row. row\<lparr>cs_Success_Rate := percent (cs_Success_Rate row),
                     cs_Readmission_Rate := percent (cs_Readmission_Rate row)\<rparr>)
       (map condition_agg (groupby condition df))"

record treatment_stats_row =
  ts_treatment_type :: string
  ts_Patient_Count :: nat
  ts_Avg_Cost :: "rat option"
  ts_Success_Rate :: "rat option"
  ts_Avg_Stay :: "rat option"

definition treatment_agg :: "string \<times> dataframe \<Rightarrow> treatment_stats_row" where
  "treatment_agg kg = (case kg of (k, g) \<Rightarrow>
     \<lparr>ts_treatment_type = k,
      ts_Patient_Count = count (map patient_id g),
      ts_Avg_Cost = round_cell 2 (mean (map total_cost g)),
      ts_Success_Rate = round_cell 2 (mean (map success_binary g)),
      ts_Avg_Stay = round_cell 2 (mean (map length_of_stay g))\<rparr>)"

definition treatment_stats :: "dataframe \<Rightarrow> treatment_stats_row list" where
  "treatment_stats df =
     map (\<lambda>row. row\<lparr>ts_Success_Rate := percent (ts_Success_Rate row)\<rparr>)
       (map treatment_agg (groupby treatment_type df))"

record age_analysis_row =
  aa_age_group :: string
  aa_Patient_Count :: nat
  aa_Avg_Cost :: "rat option"
  aa_Avg_Stay :: "rat option"
  aa_Success_Rate :: "rat option"

definition age_agg :: "age_bucket \<times> dataframe \<Rightarrow> age_analysis_row" where
  "age_agg kg = (case kg of (k, g) \<Rightarrow>
     \<lparr>aa_age_group = age_labels k,
      aa_Patient_Count = count (map patient_id g),
      aa_Avg_Cost = round_cell 2 (mean (map total_cost g)),
      aa_Avg_Stay = round_cell 2 (mean (map length_of_stay g)),
      aa_Success_Rate = round_cell 2 (mean (map success_binary g))\<rparr>)"

definition age_analysis :: "bool \<Rightarrow> dataframe \<Rightarrow> age_analysis_row list" where
  "age_analysis observed df =
     map (\<lambda>row. row\<lparr>aa_Success_Rate := percent (aa_Success_Rate row)\<rparr>)
       (map age_agg (groupby_age observed df))"

record insurance_stats_row =
  is_insurance_type :: string
  is_Patient_Count :: nat
  is_Avg_Cost :: "rat option"
  is_Avg_Stay :: "rat option"

definition insurance_stats :: "dataframe \<Rightarrow> insurance_stats_row list" where
  "insurance_stats df =
     map (\<lambda>kg. case kg of (k, g) \<Rightarrow>
       \<lparr>is_insurance_type = k,
        is_Patient_Count = count (map patient_id g),
        is_Avg_Cost = round_cell 2 (mean (map total_cost g)),
        is_Avg_Stay = round_cell 2 (mean (map length_of_stay g))\<rparr>)
       (groupby insurance_type df)"

record monthly_trends_row =
  mt_admission_month :: period
  mt_Admissions :: nat
  mt_Avg_Cost :: "rat option"

definition monthly_trends :: "dataframe \<Rightarrow> monthly_trends_row list" where
  "monthly_trends df =
     map (\<lambda>kg. case kg of (k, g) \<Rightarrow>
       \<lparr>mt_admission_month = k,
        mt_Admissions = count (map patient_id g),
        mt_Avg_Cost = round_cell 2 (mean (map total_cost g))\<rparr>)
       (groupby admission_month df)"

section \<open>Step 9: expensive cases with long stays\<close>

text \<open>
  \<^verbatim>\<open>df[(df['total_cost'] > df['total_cost'].median()) &
       (df['length_of_stay'] > df['length_of_stay'].median())]\<close>:
  two boolean columns, their conjunction cell by cell, and the rows it selects.
\<close>

definition expensive_long_stay :: "dataframe \<Rightarrow> dataframe" where
  "expensive_long_stay df =
     (let cost_mask = map (\<lambda>c. gt c (median (map total_cost df))) (map total_cost df);
          stay_mask = map (\<lambda>c. gt c (median (map length_of_stay df))) (map length_of_stay df)
      in select_mask df (map (\<lambda>(a, b). a \<and> b) (zip cost_mask stay_mask)))"

section \<open>Step 4: best and worst condition\<close>

text \<open>
  The uncaught exceptions that can end the run before the results file is written.
  \<^verbatim>\<open>idxmax\<close> and \<^verbatim>\<open>idxmin\<close> of a column with no row raise ValueError. They skip NaN
  and return the label of the first row that holds the extreme value; on a column that
  holds NaN only they return NaN (pandas before version 3), and the look-up of that label
  by \<^verbatim>\<open>condition_stats.loc[...]\<close> in the report raises KeyError. ZeroDivisionError is
  what the division of two Python numbers raises on a zero divisor; the divisions of the
  script have a NumPy scalar as dividend (see \<open>rate\<close>), so no step of the model
  returns it.
\<close>

datatype fault = ValueError | KeyError | ZeroDivisionError

fun scan_extreme ::
  "(rat \<Rightarrow> rat \<Rightarrow> bool) \<Rightarrow> (string \<times> rat) option \<Rightarrow> (string \<times> rat option) list
     \<Rightarrow> (string \<times> rat) option" where
  "scan_extreme better best [] = best"
| "scan_extreme better best ((k, None) # col) = scan_extreme better best col"
| "scan_extreme better None ((k, Some v) # col) = scan_extreme better (Some (k, v)) col"
| "scan_extreme better (Some (bk, bv)) ((k, Some v) # col) =
     scan_extreme better (if better v bv then Some (k, v) else Some (bk, bv)) col"

definition idxmax :: "(string \<times> rat option) list \<Rightarrow> fault + string option" where
  "idxmax col = (if col = [] then Inl ValueError
     else Inr (map_option fst (scan_extreme (\<lambda>v b. b < v) None col)))"

definition idxmin :: "(string \<times> rat option) list \<Rightarrow> fault + string option" where
  "idxmin col = (if col = [] then Inl ValueError
     else Inr (map_option fst (scan_extreme (\<lambda>v b. v < b) None col)))"

text \<open>\<^verbatim>\<open>condition_stats.loc[label, column]\<close> for a label that \<^verbatim>\<open>idxmax\<close> returned.\<close>

definition loc :: "string option \<Rightarrow> fault + string" where
  "loc label = (case label of None \<Rightarrow> Inl KeyError | Some k \<Rightarrow> Inr k)"

definition key_findings :: "condition_stats_row list \<Rightarrow> fault + string \<times> string \<times> string" where
  "key_findings cs =
     (case idxmax (map (\<lambda>row. (cs_condition row, cs_Success_Rate row)) cs) of
        Inl e \<Rightarrow> Inl e
      | Inr best_condition \<Rightarrow>
     (case idxmin (map (\<lambda>row. (cs_condition row, cs_Success_Rate row)) cs) of
        Inl e \<Rightarrow> Inl e
      | Inr worst_condition \<Rightarrow>
     (case idxmax (map (\<lambda>row. (cs_condition row, cs_Avg_Cost row)) cs) of
        Inl e \<Rightarrow> Inl e
      | Inr most_expensive \<Rightarrow>
     (case loc best_condition of Inl e \<Rightarrow> Inl e | Inr b \<Rightarrow>
     (case loc worst_condition of Inl e \<Rightarrow> Inl e | Inr w \<Rightarrow>
     (case loc most_expensive of Inl e \<Rightarrow> Inl e | Inr m \<Rightarrow> Inr (b, w, m)))))))"

section \<open>Step 11: the dashboard data\<close>

text \<open>
  \<^verbatim>\<open>str(idx)\<close> of a monthly period: the year in four digits, a hyphen, the month in
  two digits.
\<close>

fun digits :: "nat \<Rightarrow> nat \<Rightarrow> string" where
  "digits 0 n = []"
| "digits (Suc w) n = digits w (n div 10) @ [char_of (48 + n mod 10)]"

definition period_str :: "period \<Rightarrow> string" where
  "period_str p = digits 4 (nat (p div 12 + 1970)) @ ''-'' @ digits 2 (nat (p mod 12 + 1))"

record summary =
  sm_total_patients :: int
  sm_avg_stay :: "rat option"
  sm_avg_cost :: "rat option"
  sm_success_rate :: "rat option"
  sm_readmission_rate :: "rat option"

record monthly_entry =
  me_month :: string
  me_admissions :: int
  me_avg_cost :: "rat option"

record dashboard_data =
  dd_summary :: summary
  dd_by_condition :: "condition_stats_row list"
  dd_by_treatment :: "treatment_stats_row list"
  dd_by_age_group :: "age_analysis_row list"
  dd_monthly_trends :: "monthly_entry list"

definition dashboard_summary :: "dataframe \<Rightarrow> summary" where
  "dashboard_summary df =
     \<lparr>sm_total_patients = int (total_patients df),
      sm_avg_stay = round_cell 1 (avg_length_stay df),
      sm_avg_cost = round_cell 2 (avg_cost df),
      sm_success_rate = round_cell 1 (success_rate df),
      sm_readmission_rate = round_cell 1 (readmission_rate df)\<rparr>"

definition dashboard_monthly :: "dataframe \<Rightarrow> monthly_entry list" where
  "dashboard_monthly df =
     map (\<lambda>row. \<lparr>me_month = period_str (mt_admission_month row),
                  me_admissions = int (mt_Admissions row),
                  me_avg_cost = round_cell 2 (mt_Avg_Cost row)\<rparr>)
       (monthly_trends df)"

definition dashboard :: "bool \<Rightarrow> dataframe \<Rightarrow> dashboard_data" where
  "dashboard observed df =
     \<lparr>dd_summary = dashboard_summary df,
      dd_by_condition = condition_stats df,
      dd_by_treatment = treatment_stats df,
      dd_by_age_group = age_analysis observed df,
      dd_monthly_trends = dashboard_monthly df\<rparr>"

section \<open>The run up to the results file\<close>

text \<open>
  The script from the loaded table to \<^verbatim>\<open>json.dump(dashboard_data, f, indent=2)\<close>.
  \<open>Inr d\<close>: the file \<^verbatim>\<open>analysis_results.json\<close> is written with \<open>d\<close>. \<open>Inl e\<close>: the
  run ended with the uncaught exception \<open>e\<close> before the file was opened, and no file is
  written.
\<close>

definition run :: "bool \<Rightarrow> dataframe \<Rightarrow> fault + dashboard_data" where
  "run observed df =
     (case key_findings (condition_stats df) of
        Inl e \<Rightarrow> Inl e
      | Inr findings \<Rightarrow> Inr (dashboard observed df))"

text \<open>
  The periods whose year has four digits. pandas timestamps lie between the years 1677
  and 2262, so every period of the table is one of them.
\<close>

definition in_range :: "period \<Rightarrow> bool" where
  "in_range p = (0 \<le> p div 12 + 1970 \<and> p div 12 + 1970 < 10000)"

section \<open>Example rows\<close>

text \<open>A row with every cell missing; the examples below fill in the cells they need.\<close>

definition blank :: encounter where
  "blank = \<lparr>patient_id = None, admission_date = None, discharge_date = None, age = None,
     condition = None, treatment_type = None, insurance_type = None, length_of_stay = None,
     total_cost = None, doctor_visits = None, treatment_success = None, readmitted = None\<rparr>"

section \<open>Lemmas on columns and groups\<close>

lemma select_mask_zip:
  "select_mask xs (map (\<lambda>(a, b). a \<and> b) (zip (map p xs) (map q xs))) = filter (\<lambda>x. p x \<and> q x) xs"
  by (induction xs) auto

lemma set_dropna: "set (dropna col) = {v. Some v \<in> set col}"
  by (induction col rule: dropna.induct) auto

lemma length_dropna_full: "\<forall>c \<in> set col. c \<noteq> None \<Longrightarrow> length (dropna col) = length col"
  by (induction col rule: dropna.induct) auto

lemma sum_indicator:
  "distinct ks \<Longrightarrow> k0 \<in> set ks \<Longrightarrow> sum_list (map (\<lambda>k. if k0 = k then 1 else 0) ks) = (1::nat)"
  by (induction ks) auto

lemma sum_group_sizes:
  "distinct ks \<Longrightarrow> \<forall>r \<in> set df. \<exists>k \<in> set ks. key r = Some k \<Longrightarrow>
   sum_list (map (\<lambda>k. length (filter (\<lambda>r. key r = Some k) df)) ks) = length df"
proof (induction df)
  case Nil
  then show ?case by simp
next
  case (Cons r df)
  from Cons.prems obtain k0 where k0: "k0 \<in> set ks" "key r = Some k0" by auto
  have "sum_list (map (\<lambda>k. length (filter (\<lambda>r. key r = Some k) (r # df))) ks)
      = sum_list (map (\<lambda>k. (if k0 = k then 1 else 0) + length (filter (\<lambda>r. key r = Some k) df)) ks)"
    using k0 by (intro arg_cong[where f = sum_list] map_cong) auto
  also have "\<dots> = sum_list (map (\<lambda>k. if k0 = k then 1 else 0) ks)
      + sum_list (map (\<lambda>k. length (filter (\<lambda>r. key r = Some k) df)) ks)"
    by (simp add: sum_list_addf)
  also have "\<dots> = 1 + length df"
    using Cons sum_indicator[OF Cons.prems(1) k0(1)] by simp
  finally show ?case by simp
qed

lemma count_full: "\<forall>r \<in> set g. patient_id r \<noteq> None \<Longrightarrow> count (map patient_id g) = length g"
  by (simp add: count_def length_dropna_full)

lemma groupby_counts:
  assumes "\<forall>r \<in> set df. patient_id r \<noteq> None" and "\<forall>r \<in> set df. key r \<noteq> None"
  shows "sum_list (map (\<lambda>kg. count (map patient_id (snd kg))) (groupby key df)) = length df"
proof -
  let ?ks = "sort (remdups (dropna (map key df)))"
  have d: "distinct ?ks" by simp
  have cover: "\<forall>r \<in> set df. \<exists>k \<in> set ?ks. key r = Some k"
    using assms(2) by (force simp: set_dropna)
  have "sum_list (map (\<lambda>kg. count (map patient_id (snd kg))) (groupby key df))
      = sum_list (map (\<lambda>k. count (map patient_id (filter (\<lambda>r. key r = Some k) df))) ?ks)"
    by (simp add: groupby_def comp_def)
  also have "\<dots> = sum_list (map (\<lambda>k. length (filter (\<lambda>r. key r = Some k) df)) ?ks)"
    using assms(1) by (intro arg_cong[where f = sum_list] map_cong refl count_full) auto
  also have "\<dots> = length df" by (rule sum_group_sizes[OF d cover])
  finally show ?thesis .
qed


lemma groupby_age_counts:
  assumes "\<forall>r \<in> set df. patient_id r \<noteq> None" and "\<forall>r \<in> set df. age_group r \<noteq> None"
  shows "sum_list (map (\<lambda>kg. count (map patient_id (snd kg))) (groupby_age observed df)) = length df"
proof -
  let ?ks = "if observed then filter (\<lambda>k. Some k \<in> set (map age_group df)) age_categories
             else age_categories"
  have all: "k \<in> set age_categories" for k
    by (cases k) (simp_all add: age_categories_def)
  have d: "distinct ?ks" by (simp add: age_categories_def)
  have cover: "\<forall>r \<in> set df. \<exists>k \<in> set ?ks. age_group r = Some k"
  proof
    fix r assume r: "r \<in> set df"
    with assms(2) obtain k where k: "age_group r = Some k" by auto
    have "Some k \<in> set (map age_group df)" using r k by force
    then have "k \<in> set ?ks" using all by simp
    with k show "\<exists>k \<in> set ?ks. age_group r = Some k" by blast
  qed
  have "sum_list (map (\<lambda>kg. count (map patient_id (snd kg))) (groupby_age observed df))
      = sum_list (map (\<lambda>k. count (map patient_id (filter (\<lambda>r. age_group r = Some k) df))) ?ks)"
    unfolding groupby_age_def by (simp add: comp_def)
  also have "\<dots> = sum_list (map (\<lambda>k. length (filter (\<lambda>r. age_group r = Some k) df)) ?ks)"
    using assms(1) by (intro arg_cong[where f = sum_list] map_cong refl count_full) auto
  also have "\<dots> = length df" by (rule sum_group_sizes[OF d cover])
  finally show ?thesis .
qed

lemma age_analysis_drop:
  assumes "age_group r = None"
  shows "age_analysis observed (df1 @ r # df2) = age_analysis observed (df1 @ df2)"
proof -
  have f: "filter (\<lambda>x. age_group x = Some k) (df1 @ r # df2)
         = filter (\<lambda>x. age_group x = Some k) (df1 @ df2)" for k
    using assms by simp
  have s: "(Some k \<in> set (map age_group (df1 @ r # df2))) = (Some k \<in> set (map age_group (df1 @ df2)))" for k
    using assms by auto
  have "groupby_age observed (df1 @ r # df2) = groupby_age observed (df1 @ df2)"
    unfolding groupby_age_def f s ..
  then show ?thesis by (simp add: age_analysis_def)
qed

lemma strict_groupby_keys: "sorted_wrt (<) (map fst (groupby key df))"
  by (simp add: groupby_def comp_def strict_sorted_iff)

lemma mean_full:
  assumes "col \<noteq> []" "\<forall>c \<in> set col. c \<noteq> None"
  shows "mean col = Some (sum_skipna col / of_nat (length col))"
proof -
  have "length (dropna col) = length col" using assms(2) by (rule length_dropna_full)
  moreover from this assms(1) have "dropna col \<noteq> []" by auto
  ultimately show ?thesis by (simp add: mean_def sum_skipna_def Let_def)
qed

text \<open>The string of a period grows with the period.\<close>

lemma length_digits: "length (digits w n) = w"
  by (induction w arbitrary: n) auto

lemma digit_char_less: "i < j \<Longrightarrow> j < 10 \<Longrightarrow> char_of (48 + i :: nat) < char_of (48 + j :: nat)"
  by (simp add: less_char_def)

lemma digits_mono: "a < b \<Longrightarrow> b < 10 ^ w \<Longrightarrow> digits w a < digits w b"
proof (induction w arbitrary: a b)
  case 0
  then show ?case by simp
next
  case (Suc w)
  have bdiv: "b div 10 < 10 ^ w" using Suc.prems(2) by (simp add: less_mult_imp_div_less)
  consider "a div 10 < b div 10" | "a div 10 = b div 10" "a mod 10 < b mod 10"
    using Suc.prems(1)
    by (metis div_le_mono less_imp_le_nat linorder_neqE_nat mod_div_decomp nat_add_left_cancel_less not_less)
  then show ?case
  proof cases
    case 1
    then have "digits w (a div 10) < digits w (b div 10)" using bdiv by (rule Suc.IH)
    then have "(digits w (a div 10), digits w (b div 10)) \<in> lexord {(u, v). u < v}"
      by (simp add: list_less_def)
    then have "(digits w (a div 10) @ [char_of (48 + a mod 10)],
                digits w (b div 10) @ [char_of (48 + b mod 10)]) \<in> lexord {(u, v). u < v}"
      by (rule lexord_sufI) (simp add: length_digits)
    then show ?thesis by (simp add: list_less_def)
  next
    case 2
    have "char_of (48 + a mod 10) < char_of (48 + b mod 10)"
      using 2(2) by (intro digit_char_less) auto
    then have "([char_of (48 + a mod 10)], [char_of (48 + b mod 10)]) \<in> lexord {(u, v). u < v}"
      by simp
    then have "(digits w (b div 10) @ [char_of (48 + a mod 10)],
                digits w (b div 10) @ [char_of (48 + b mod 10)]) \<in> lexord {(u, v). u < v}"
      by (rule lexord_append_leftI)
    then show ?thesis using 2(1) by (simp add: list_less_def)
  qed
qed

lemma period_str_mono:
  assumes "p < q" "in_range p" "in_range q"
  shows "period_str p < period_str q"
proof -
  let ?y = "\<lambda>p::int. nat (p div 12 + 1970)" and ?m = "\<lambda>p::int. nat (p mod 12 + 1)"
  have le: "p div 12 \<le> q div 12" using assms(1) by (simp add: zdiv_mono1)
  show ?thesis
  proof (cases "p div 12 < q div 12")
    case True
    then have "?y p < ?y q" using assms(2) by (simp add: in_range_def)
    moreover have "?y q < 10 ^ 4" using assms(3) by (simp add: in_range_def) linarith
    ultimately have "digits 4 (?y p) < digits 4 (?y q)" by (rule digits_mono)
    then have "(digits 4 (?y p), digits 4 (?y q)) \<in> lexord {(u, v). u < v}"
      by (simp add: list_less_def)
    then have "(digits 4 (?y p) @ (''-'' @ digits 2 (?m p)),
                digits 4 (?y q) @ (''-'' @ digits 2 (?m q))) \<in> lexord {(u, v). u < v}"
      by (rule lexord_sufI) (simp add: length_digits)
    then show ?thesis by (simp add: period_str_def list_less_def)
  next
    case False
    with le have eq: "p div 12 = q div 12" by simp
    have "p mod 12 < q mod 12"
      using assms(1) eq by (metis add_less_cancel_left mult_div_mod_eq)
    moreover have "0 \<le> p mod 12" "q mod 12 < 12" by simp_all
    ultimately have "?m p < ?m q" "?m q < 10 ^ 2" by simp_all
    then have "digits 2 (?m p) < digits 2 (?m q)" by (rule digits_mono)
    then have "(digits 2 (?m p), digits 2 (?m q)) \<in> lexord {(u, v). u < v}"
      by (simp add: list_less_def)
    then have "((digits 4 (?y q) @ ''-'') @ digits 2 (?m p),
                (digits 4 (?y q) @ ''-'') @ digits 2 (?m q)) \<in> lexord {(u, v). u < v}"
      by (rule lexord_append_leftI)
    then show ?thesis using eq by (simp add: period_str_def list_less_def)
  qed
qed


lemma sorted_period_str:
  "sorted_wrt (<) ps \<Longrightarrow> \<forall>p \<in> set ps. in_range p \<Longrightarrow> sorted_wrt (<) (map period_str ps)"
  by (induction ps) (auto simp: period_str_mono)

lemma to_period_M_in_range:
  assumes "0 \<le> year d" "year d \<le> 9999" "1 \<le> month d" "month d \<le> 12"
  shows "in_range (to_period_M d)"
proof -
  have "to_period_M d div 12 = year d - 1970"
    using assms(3,4) by (simp add: to_period_M_def)
  then show ?thesis using assms(1,2) by (simp add: in_range_def)
qed

lemma groupby_keys_subset: "k \<in> set (map fst (groupby key df)) \<Longrightarrow> \<exists>r \<in> set df. key r = Some k"
  by (auto simp: groupby_def set_dropna)

section \<open>The claims\<close>

text \<open>
  C1. The rows of \<^verbatim>\<open>expensive_long_stay\<close> are exactly the rows of the table whose
  \<^verbatim>\<open>total_cost\<close> is strictly greater than the median of \<^verbatim>\<open>total_cost\<close> over the whole
  table and whose \<^verbatim>\<open>length_of_stay\<close> is strictly greater than the median of
  \<^verbatim>\<open>length_of_stay\<close> over the whole table. For three encounters with costs 100, 200,
  300 and stays 1, 2, 3 the medians are 200 and 2, and the subset is the one row (300, 3).
\<close>

theorem expensive_long_stay_exceeds_both_medians:
  "expensive_long_stay df =
     filter (\<lambda>r. gt (total_cost r) (median (map total_cost df)) \<and>
                 gt (length_of_stay r) (median (map length_of_stay df))) df
   \<and> median [Some 100, Some 200, Some 300] = Some 200
   \<and> median [Some 1, Some 2, Some 3] = Some 2
   \<and> expensive_long_stay
        [blank\<lparr>length_of_stay := Some 1, total_cost := Some 100\<rparr>,
         blank\<lparr>length_of_stay := Some 2, total_cost := Some 200\<rparr>,
         blank\<lparr>length_of_stay := Some 3, total_cost := Some 300\<rparr>]
      = [blank\<lparr>length_of_stay := Some 3, total_cost := Some 300\<rparr>]"
proof -
  have a: "expensive_long_stay df =
     filter (\<lambda>r. gt (total_cost r) (median (map total_cost df)) \<and>
                 gt (length_of_stay r) (median (map length_of_stay df))) df"
    unfolding expensive_long_stay_def Let_def map_map comp_def
    by (rule select_mask_zip)
  have b: "median [Some 100, Some 200, Some 300] = Some 200" by code_simp
  have c: "median [Some 1, Some 2, Some 3] = Some 2" by code_simp
  have d: "expensive_long_stay
        [blank\<lparr>length_of_stay := Some 1, total_cost := Some 100\<rparr>,
         blank\<lparr>length_of_stay := Some 2, total_cost := Some 200\<rparr>,
         blank\<lparr>length_of_stay := Some 3, total_cost := Some 300\<rparr>]
      = [blank\<lparr>length_of_stay := Some 3, total_cost := Some 300\<rparr>]" by code_simp
  from a b c d show ?thesis by blast
qed



text \<open>
  C10. Age 0 has no bucket, since the first interval (0, 35] is open on the left; the
  \<^verbatim>\<open>by_age_group\<close> table is the table of the data without a row of age 0.
\<close>

theorem age_zero_has_no_bucket:
  "cut (Some 0) = None
   \<and> (cut (Some x) = Some Young \<longleftrightarrow> 0 < x \<and> x \<le> 35)
   \<and> (age r = Some 0 \<longrightarrow>
        age_group r = None \<and>
        age_analysis observed (df1 @ r # df2) = age_analysis observed (df1 @ df2))"
proof -
  have z: "cut (Some 0) = None" by (simp add: cut_def)
  have y: "cut (Some x) = Some Young \<longleftrightarrow> 0 < x \<and> x \<le> 35" by (auto simp: cut_def)
  have out: "age_group r = None \<and>
        age_analysis observed (df1 @ r # df2) = age_analysis observed (df1 @ df2)"
    if "age r = Some 0"
  proof -
    have "age_group r = None" using that z by (simp add: age_group_def)
    then show ?thesis by (simp add: age_analysis_drop)
  qed
  from z y out show ?thesis by blast
qed

text \<open>The theorem at a table of two rows with ages 0 and 40.\<close>

theorem age_zero_has_no_bucket_witness:
  "age_group (blank\<lparr>age := Some 0\<rparr>) = None
   \<and> age_analysis True [blank\<lparr>age := Some 0\<rparr>, blank\<lparr>age := Some 40\<rparr>]
     = age_analysis True [blank\<lparr>age := Some 40\<rparr>]"
  using age_zero_has_no_bucket [of _ "blank\<lparr>age := Some 0\<rparr>" True "[]" "[blank\<lparr>age := Some 40\<rparr>]"]
  by simp

text \<open>
  C7. The rows of \<^verbatim>\<open>monthly_trends\<close> are in strictly ascending order of the month: of
  two consecutive rows the first has the earlier month. The \<^verbatim>\<open>monthly_trends\<close> array of
  the results file has one entry for each row, in the same order, whose \<^verbatim>\<open>month\<close> is
  the row's month as a string; with admission dates of four-digit years the strings
  "YYYY-MM" themselves are in strictly ascending order.
\<close>

theorem monthly_trends_chronological:
  "sorted_wrt (<) (map mt_admission_month (monthly_trends df))
   \<and> map me_month (dashboard_monthly df) = map (period_str \<circ> mt_admission_month) (monthly_trends df)
   \<and> ((\<forall>r \<in> set df. \<forall>d. admission_date r = Some d \<longrightarrow>
          0 \<le> year d \<and> year d \<le> 9999 \<and> 1 \<le> month d \<and> month d \<le> 12) \<longrightarrow>
       sorted_wrt (<) (map me_month (dashboard_monthly df)))"
proof -
  have keys: "map mt_admission_month (monthly_trends df) = map fst (groupby admission_month df)"
    by (simp add: monthly_trends_def comp_def case_prod_beta)
  then have a: "sorted_wrt (<) (map mt_admission_month (monthly_trends df))"
    by (simp add: strict_groupby_keys)
  have b: "map me_month (dashboard_monthly df) = map (period_str \<circ> mt_admission_month) (monthly_trends df)"
    by (simp add: dashboard_monthly_def comp_def)
  have c: "sorted_wrt (<) (map me_month (dashboard_monthly df))"
    if dates: "\<forall>r \<in> set df. \<forall>d. admission_date r = Some d \<longrightarrow>
          0 \<le> year d \<and> year d \<le> 9999 \<and> 1 \<le> month d \<and> month d \<le> 12"
  proof -
    have "\<forall>p \<in> set (map mt_admission_month (monthly_trends df)). in_range p"
    proof
      fix p assume "p \<in> set (map mt_admission_month (monthly_trends df))"
      then have "p \<in> set (map fst (groupby admission_month df))" by (simp only: keys)
      then obtain r where r: "r \<in> set df" "admission_month r = Some p"
        using groupby_keys_subset by blast
      then obtain d where d: "admission_date r = Some d" "p = to_period_M d"
        by (auto simp: admission_month_def)
      with dates r(1) show "in_range p" by (simp add: to_period_M_in_range)
    qed
    with a have "sorted_wrt (<) (map period_str (map mt_admission_month (monthly_trends df)))"
      by (rule sorted_period_str)
    then show ?thesis by (simp add: b)
  qed
  from a b c show ?thesis by blast
qed

text \<open>
  The theorem at a table of three admissions in November 2023, December 2022 and
  November 2023: the array has the two months in chronological order.
\<close>

theorem monthly_trends_chronological_witness:
  "map me_month (dashboard_monthly
     [blank\<lparr>admission_date := Some (Date 2023 11 30)\<rparr>,
      blank\<lparr>admission_date := Some (Date 2022 12 1)\<rparr>,
      blank\<lparr>admission_date := Some (Date 2023 11 2)\<rparr>])
     = [''2022-12'', ''2023-11'']
   \<and> sorted_wrt (<) [''2022-12'', ''2023-11'']"
proof -
  let ?df = "[blank\<lparr>admission_date := Some (Date 2023 11 30)\<rparr>,
      blank\<lparr>admission_date := Some (Date 2022 12 1)\<rparr>,
      blank\<lparr>admission_date := Some (Date 2023 11 2)\<rparr>]"
  have k: "map mt_admission_month (monthly_trends ?df) = [635, 646]"
    by code_simp
  have p: "period_str 635 = ''2022-12''" "period_str 646 = ''2023-11''"
    by code_simp+
  have "map me_month (dashboard_monthly ?df)
      = map (period_str \<circ> mt_admission_month) (monthly_trends ?df)"
    by (rule monthly_trends_chronological [of ?df, THEN conjunct2, THEN conjunct1])
  also have "\<dots> = map period_str (map mt_admission_month (monthly_trends ?df))"
    by (simp only: map_map)
  also have "\<dots> = [period_str 635, period_str 646]"
    by (simp only: k list.map)
  finally have v: "map me_month (dashboard_monthly ?df) = [''2022-12'', ''2023-11'']"
    by (simp only: p)
  have dates: "\<forall>r \<in> set ?df. \<forall>d. admission_date r = Some d \<longrightarrow>
          0 \<le> year d \<and> year d \<le> 9999 \<and> 1 \<le> month d \<and> month d \<le> 12"
    by auto
  have "sorted_wrt (<) (map me_month (dashboard_monthly ?df))"
    by (rule monthly_trends_chronological [of ?df, THEN conjunct2, THEN conjunct2, THEN mp, OF dates])
  then have s: "sorted_wrt (<) [''2022-12'', ''2023-11'']"
    by (simp only: v)
  from v s show ?thesis by (rule conjI)
qed



text \<open>
  C3, as stated, fails. On the table of two rows with \<^verbatim>\<open>treatment_success\<close> "Yes" and
  "Maybe" the mean of \<^verbatim>\<open>success_binary\<close> skips the missing cell and is 1, so its
  percentage is 100.0, while the summary divides the sum by the number of all rows and
  stores 50.0.
\<close>

theorem success_rate_mean_counterexample:
  "[blank\<lparr>treatment_success := Some ''Yes''\<rparr>, blank\<lparr>treatment_success := Some ''Maybe''\<rparr>] \<noteq> []
   \<and> percent (mean (map success_binary
        [blank\<lparr>treatment_success := Some ''Yes''\<rparr>, blank\<lparr>treatment_success := Some ''Maybe''\<rparr>])) = Some 100
   \<and> sm_success_rate (dashboard_summary
        [blank\<lparr>treatment_success := Some ''Yes''\<rparr>, blank\<lparr>treatment_success := Some ''Maybe''\<rparr>]) = Some 50"
  by code_simp

text \<open>
  C3, amended. For every table with at least one row in which every
  \<^verbatim>\<open>treatment_success\<close> is exactly "Yes" or "No", the mean of \<^verbatim>\<open>success_binary\<close> times
  100, rounded to one decimal digit, is the overall success rate rounded to one decimal
  digit, which is the value printed and the value stored in the summary.
\<close>

theorem success_rate_is_mean_percent:
  assumes "df \<noteq> []"
    and "\<forall>r \<in> set df. treatment_success r = Some ''Yes'' \<or> treatment_success r = Some ''No''"
  shows "percent (mean (map success_binary df)) = round_cell 1 (success_rate df)
       \<and> sm_success_rate (dashboard_summary df) = round_cell 1 (success_rate df)"
proof -
  have full: "\<forall>c \<in> set (map success_binary df). c \<noteq> None"
    using assms(2) by (auto simp: success_binary_def map_yes_no_def)
  have ne: "map success_binary df \<noteq> []" using assms(1) by simp
  have "mean (map success_binary df)
      = Some (sum_skipna (map success_binary df) / of_nat (length (map success_binary df)))"
    by (rule mean_full[OF ne full])
  moreover have "success_rate df
      = Some (sum_skipna (map success_binary df) / of_nat (length (map success_binary df)) * 100)"
    using assms(1) by (simp add: success_rate_def rate_def)
  ultimately have "percent (mean (map success_binary df)) = round_cell 1 (success_rate df)"
    by (simp add: percent_def)
  then show ?thesis by (simp add: dashboard_summary_def)
qed

text \<open>The theorem at a table of three rows with "Yes", "No", "No".\<close>

theorem success_rate_is_mean_percent_witness:
  "percent (mean (map success_binary
      [blank\<lparr>treatment_success := Some ''Yes''\<rparr>, blank\<lparr>treatment_success := Some ''No''\<rparr>,
       blank\<lparr>treatment_success := Some ''No''\<rparr>]))
   = sm_success_rate (dashboard_summary
      [blank\<lparr>treatment_success := Some ''Yes''\<rparr>, blank\<lparr>treatment_success := Some ''No''\<rparr>,
       blank\<lparr>treatment_success := Some ''No''\<rparr>])"
  using success_rate_is_mean_percent
    [of "[blank\<lparr>treatment_success := Some ''Yes''\<rparr>, blank\<lparr>treatment_success := Some ''No''\<rparr>,
       blank\<lparr>treatment_success := Some ''No''\<rparr>]"]
  by simp



text \<open>
  C9, as stated, fails. On the table with no row the two rate calculations return NaN
  and raise nothing, and the fault that ends the run is not a division by zero.
\<close>

theorem empty_table_rates_counterexample:
  "success_rate [] = None \<and> readmission_rate [] = None \<and> run True [] \<noteq> Inl ZeroDivisionError"
  by (simp add: success_rate_def readmission_rate_def rate_def run_def key_findings_def
      condition_stats_def groupby_def idxmax_def)

text \<open>
  C9, amended. On the table with no row the rate calculations give NaN without a fault;
  the run is then ended by the uncaught ValueError of \<^verbatim>\<open>idxmax\<close> on the empty table by
  condition, before the results file is opened, so no results file is written.
\<close>

theorem empty_table_ends_run_before_file:
  "success_rate [] = None \<and> readmission_rate [] = None \<and> run observed [] = Inl ValueError"
  by (simp add: success_rate_def readmission_rate_def rate_def run_def key_findings_def
      condition_stats_def groupby_def idxmax_def)

text \<open>
  C5, as stated, fails. \<^verbatim>\<open>Patient_Count\<close> is the \<^verbatim>\<open>'count'\<close> of \<^verbatim>\<open>patient_id\<close>, the
  number of patient ids in the group that are not missing. On the table of one row that
  has every grouping key and an empty \<^verbatim>\<open>patient_id\<close> cell the counts sum to 0, while
  \<^verbatim>\<open>total_patients\<close> is 1.
\<close>

theorem patient_counts_counterexample:
  "condition (blank\<lparr>admission_date := Some (Date 2023 1 5), age := Some 40,
        condition := Some ''Flu'', treatment_type := Some ''Surgery'',
        insurance_type := Some ''Private''\<rparr>) \<noteq> None
   \<and> treatment_type (blank\<lparr>admission_date := Some (Date 2023 1 5), age := Some 40,
        condition := Some ''Flu'', treatment_type := Some ''Surgery'',
        insurance_type := Some ''Private''\<rparr>) \<noteq> None
   \<and> age_group (blank\<lparr>admission_date := Some (Date 2023 1 5), age := Some 40,
        condition := Some ''Flu'', treatment_type := Some ''Surgery'',
        insurance_type := Some ''Private''\<rparr>) \<noteq> None
   \<and> insurance_type (blank\<lparr>admission_date := Some (Date 2023 1 5), age := Some 40,
        condition := Some ''Flu'', treatment_type := Some ''Surgery'',
        insurance_type := Some ''Private''\<rparr>) \<noteq> None
   \<and> admission_month (blank\<lparr>admission_date := Some (Date 2023 1 5), age := Some 40,
        condition := Some ''Flu'', treatment_type := Some ''Surgery'',
        insurance_type := Some ''Private''\<rparr>) \<noteq> None
   \<and> sum_list (map cs_Patient_Count (condition_stats [blank\<lparr>admission_date := Some (Date 2023 1 5), age := Some 40,
        condition := Some ''Flu'', treatment_type := Some ''Surgery'',
        insurance_type := Some ''Private''\<rparr>])) = 0
   \<and> total_patients [blank\<lparr>admission_date := Some (Date 2023 1 5), age := Some 40,
        condition := Some ''Flu'', treatment_type := Some ''Surgery'',
        insurance_type := Some ''Private''\<rparr>] = 1"
  by code_simp

text \<open>
  C5, amended. For every table with at least one row in which every \<^verbatim>\<open>patient_id\<close> is
  present: each grouped table (by condition, treatment type, age bucket, insurance type,
  admission month) whose grouping key is present in every row has \<^verbatim>\<open>Patient_Count\<close>
  values that sum to \<^verbatim>\<open>total_patients\<close>, and \<^verbatim>\<open>total_patients\<close> is the number of rows
  of the table.
\<close>

theorem patient_counts_sum_to_total:
  assumes "df \<noteq> []" and "\<forall>r \<in> set df. patient_id r \<noteq> None"
  shows "((\<forall>r \<in> set df. condition r \<noteq> None) \<longrightarrow>
            sum_list (map cs_Patient_Count (condition_stats df)) = total_patients df)
       \<and> ((\<forall>r \<in> set df. treatment_type r \<noteq> None) \<longrightarrow>
            sum_list (map ts_Patient_Count (treatment_stats df)) = total_patients df)
       \<and> ((\<forall>r \<in> set df. age_group r \<noteq> None) \<longrightarrow>
            sum_list (map aa_Patient_Count (age_analysis observed df)) = total_patients df)
       \<and> ((\<forall>r \<in> set df. insurance_type r \<noteq> None) \<longrightarrow>
            sum_list (map is_Patient_Count (insurance_stats df)) = total_patients df)
       \<and> ((\<forall>r \<in> set df. admission_month r \<noteq> None) \<longrightarrow>
            sum_list (map mt_Admissions (monthly_trends df)) = total_patients df)
       \<and> total_patients df = length df"
proof -
  have c: "map cs_Patient_Count (condition_stats df)
      = map (\<lambda>kg. count (map patient_id (snd kg))) (groupby condition df)"
    by (simp add: condition_stats_def condition_agg_def comp_def case_prod_beta)
  have t: "map ts_Patient_Count (treatment_stats df)
      = map (\<lambda>kg. count (map patient_id (snd kg))) (groupby treatment_type df)"
    by (simp add: treatment_stats_def treatment_agg_def comp_def case_prod_beta)
  have a: "map aa_Patient_Count (age_analysis observed df)
      = map (\<lambda>kg. count (map patient_id (snd kg))) (groupby_age observed df)"
    by (simp add: age_analysis_def age_agg_def comp_def case_prod_beta)
  have i: "map is_Patient_Count (insurance_stats df)
      = map (\<lambda>kg. count (map patient_id (snd kg))) (groupby insurance_type df)"
    by (simp add: insurance_stats_def comp_def case_prod_beta)
  have m: "map mt_Admissions (monthly_trends df)
      = map (\<lambda>kg. count (map patient_id (snd kg))) (groupby admission_month df)"
    by (simp add: monthly_trends_def comp_def case_prod_beta)
  have 1: "sum_list (map cs_Patient_Count (condition_stats df)) = total_patients df"
    if "\<forall>r \<in> set df. condition r \<noteq> None"
    unfolding c total_patients_def by (rule groupby_counts[OF assms(2) that])
  have 2: "sum_list (map ts_Patient_Count (treatment_stats df)) = total_patients df"
    if "\<forall>r \<in> set df. treatment_type r \<noteq> None"
    unfolding t total_patients_def by (rule groupby_counts[OF assms(2) that])
  have 3: "sum_list (map aa_Patient_Count (age_analysis observed df)) = total_patients df"
    if "\<forall>r \<in> set df. age_group r \<noteq> None"
    unfolding a total_patients_def by (rule groupby_age_counts[OF assms(2) that])
  have 4: "sum_list (map is_Patient_Count (insurance_stats df)) = total_patients df"
    if "\<forall>r \<in> set df. insurance_type r \<noteq> None"
    unfolding i total_patients_def by (rule groupby_counts[OF assms(2) that])
  have 5: "sum_list (map mt_Admissions (monthly_trends df)) = total_patients df"
    if "\<forall>r \<in> set df. admission_month r \<noteq> None"
    unfolding m total_patients_def by (rule groupby_counts[OF assms(2) that])
  have 6: "total_patients df = length df" by (simp add: total_patients_def)
  show ?thesis
    apply (intro conjI impI)
    apply (erule 1)
    apply (erule 2)
    apply (erule 3)
    apply (erule 4)
    apply (erule 5)
    apply (rule 6)
    done
qed

text \<open>The theorem at a table of three rows with two conditions.\<close>

theorem patient_counts_sum_to_total_witness:
  "sum_list (map cs_Patient_Count (condition_stats
      [blank\<lparr>patient_id := Some ''P1'', condition := Some ''Flu''\<rparr>,
       blank\<lparr>patient_id := Some ''P2'', condition := Some ''Asthma''\<rparr>,
       blank\<lparr>patient_id := Some ''P3'', condition := Some ''Flu''\<rparr>])) = 3"
proof -
  let ?df = "[blank\<lparr>patient_id := Some ''P1'', condition := Some ''Flu''\<rparr>,
       blank\<lparr>patient_id := Some ''P2'', condition := Some ''Asthma''\<rparr>,
       blank\<lparr>patient_id := Some ''P3'', condition := Some ''Flu''\<rparr>]"
  have ne: "?df \<noteq> []" by simp
  have ids: "\<forall>r \<in> set ?df. patient_id r \<noteq> None" by simp
  have keys: "\<forall>r \<in> set ?df. condition r \<noteq> None" by simp
  have len: "total_patients ?df = 3" by (simp add: total_patients_def)
  from patient_counts_sum_to_total [OF ne ids, of True]
  have "(\<forall>r \<in> set ?df. condition r \<noteq> None) \<longrightarrow>
            sum_list (map cs_Patient_Count (condition_stats ?df)) = total_patients ?df"
    by (rule conjunct1)
  with keys len show ?thesis by (simp only:)
qed

end
